theory Spec2Isabelle
  imports Main "HOL-Library.Multiset"
begin

section \<open>Deck legality checker (checker.py)\<close>

subsection \<open>Data model\<close>

text \<open>
  A deck is the dictionary built by \<open>read_deckfile\<close>: two keys, each holding a list of
  entries \<open>{"cardname": str, "quantity": int}\<close>. The checker reads the keys with
  \<open>deck.get(key, [])\<close>, so a key may be absent; the fields are options for that reason.
  Quantities are Python integers, hence \<open>int\<close>.
\<close>

record card_entry =
  cardname :: string
  quantity :: int

record deck =
  maindeck :: "card_entry list option"
  sidedeck :: "card_entry list option"

text \<open>\<open>deck.get(key, [])\<close>\<close>

definition get_or_empty :: "'a list option \<Rightarrow> 'a list" where
  "get_or_empty v = (case v of None \<Rightarrow> [] | Some xs \<Rightarrow> xs)"

subsection \<open>Python string helpers\<close>

text \<open>\<open>str(n)\<close> for an integer: decimal digits, a leading minus sign when negative.\<close>

definition digit_char :: "nat \<Rightarrow> char" where
  "digit_char d = ''0123456789'' ! d"

function str_nat :: "nat \<Rightarrow> string" where
  "str_nat n = (if n < 10 then [digit_char n] else str_nat (n div 10) @ [digit_char (n mod 10)])"
  by pat_completeness auto
termination
  by (relation "measure (\<lambda>n. n)") auto

declare str_nat.simps [simp del]

definition str_int :: "int \<Rightarrow> string" where
  "str_int i = (if i < 0 then CHR ''-'' # str_nat (nat (- i)) else str_nat (nat i))"

text \<open>\<open>sep.join(xs)\<close>\<close>

fun join :: "string \<Rightarrow> string list \<Rightarrow> string" where
  "join sep [] = []"
| "join sep [x] = x"
| "join sep (x # y # ys) = x @ sep @ join sep (y # ys)"

text \<open>\<open>s.startswith(p)\<close>\<close>

definition startswith :: "string \<Rightarrow> string \<Rightarrow> bool" where
  "startswith s p = (take (length p) s = p)"

text \<open>\<open>s.replace('_', ' ')\<close>\<close>

definition replace_underscores :: "string \<Rightarrow> string" where
  "replace_underscores s = map (\<lambda>c. if c = CHR ''_'' then CHR '' '' else c) s"

subsection \<open>Deck size\<close>

text \<open>
  \<open>check_deck_size\<close> counts both pools and appends to \<open>self.reasons\<close>. The model threads
  the reasons list: it takes the list so far and returns the list afterwards.
\<close>

definition count_cards :: "card_entry list option \<Rightarrow> int" where
  "count_cards pool = sum_list (map quantity (get_or_empty pool))"

definition check_deck_size :: "deck \<Rightarrow> string \<Rightarrow> string list \<Rightarrow> string list" where
  "check_deck_size d fmt reasons =
    (let main_count = count_cards (maindeck d);
         side_count = count_cards (sidedeck d)
     in if fmt = ''commander'' then
          (let r1 = (if main_count \<noteq> 99
                     then reasons @ [''Commander deck has '' @ str_int main_count @ ''/99 cards'']
                     else reasons)
           in if side_count \<noteq> 1
              then r1 @ [''Has '' @ str_int side_count @ '' commanders (needs 1)'']
              else r1)
        else
          (let r1 = (if main_count < 60
                     then reasons @ [''Maindeck has '' @ str_int main_count @ ''/60 cards'']
                     else reasons)
           in if side_count > 15
              then r1 @ [''Sideboard has '' @ str_int side_count @ ''/15 cards'']
              else r1))"

subsection \<open>Card metadata and the catalog\<close>

text \<open>
  The catalog answers with a JSON object. The fields the program reads are typed as the
  service documents them; each is optional because the code reads it with \<open>.get\<close> or
  tests for the key. \<open>other_keys\<close> lists the keys the program never reads, so that the
  empty dictionary \<open>{}\<close> (falsy in Python) can be told from any other answer.
\<close>

record card_face =
  face_image_uris :: "(string \<rightharpoonup> string) option"

record card_data =
  legalities :: "(string \<rightharpoonup> string) option"
  type_line :: "string option"
  prices :: "(string \<rightharpoonup> string) option"
  image_uris :: "(string \<rightharpoonup> string) option"
  card_faces :: "card_face list option"
  other_keys :: "string list"

definition empty_dict :: card_data where
  "empty_dict = \<lparr>legalities = None, type_line = None, prices = None, image_uris = None,
                  card_faces = None, other_keys = []\<rparr>"

text \<open>\<open>not card_data\<close>: a dictionary is falsy exactly when it has no key.\<close>

definition is_empty_dict :: "card_data \<Rightarrow> bool" where
  "is_empty_dict cd =
    (legalities cd = None \<and> type_line cd = None \<and> prices cd = None \<and> image_uris cd = None \<and>
     card_faces cd = None \<and> other_keys cd = [])"

text \<open>
  The network is a parameter: \<open>session name\<close> is what the request for \<open>name\<close> comes to,
  either an exception (\<open>Inl\<close> of its \<open>str(e)\<close>) or the decoded answer.
\<close>

type_synonym session = "string \<Rightarrow> string + card_data"

definition UNLIMITED_CARDS :: "string set" where
  "UNLIMITED_CARDS = {''Persistent Petitioners'', ''Rat Colony'', ''Relentless Rats'',
                      ''Shadowborn Apostle'', ''Dragon's Approach''}"

definition SPECIAL_LIMIT_CARDS :: "string \<rightharpoonup> int" where
  "SPECIAL_LIMIT_CARDS = [''Seven Dwarves'' \<mapsto> 7]"

subsection \<open>Checking one card\<close>

text \<open>
  \<open>_fetch_card_data\<close>: the \<open>except Exception\<close> branch appends the error to the reasons and
  returns \<open>{}\<close>. The sleep only delays the request; the semaphore decides which tasks
  can be fetching at all, see \<open>check_all_cards\<close> below.
\<close>

definition checker_fetch_card_data :: "session \<Rightarrow> string \<Rightarrow> string list \<Rightarrow> string list \<times> card_data" where
  "checker_fetch_card_data session card_name reasons =
    (case session card_name of
       Inl e \<Rightarrow> (reasons @ [''Error checking '' @ card_name @ '': '' @ e], empty_dict)
     | Inr response \<Rightarrow> (reasons, response))"

text \<open>Lines 57 to 60 of \<open>_check_card\<close>: the format legality.\<close>

definition check_format_legality :: "string \<Rightarrow> string \<Rightarrow> card_data \<Rightarrow> string list \<Rightarrow> string list" where
  "check_format_legality fmt card_name cd reasons =
    (let legality = (case legalities cd of None \<Rightarrow> None | Some m \<Rightarrow> m fmt)
     in if legality \<noteq> Some ''legal'' then
          (let status = (case legality of
                           None \<Rightarrow> ''not found''
                         | Some s \<Rightarrow> if s \<noteq> [] then replace_underscores s else ''not found'')
           in reasons @ [card_name @ '' is '' @ status @ '' in '' @ fmt])
        else reasons)"

text \<open>Lines 62 to 69 of \<open>_check_card\<close>: the quantity limits.\<close>

definition check_quantity_limits :: "string \<Rightarrow> int \<Rightarrow> card_data \<Rightarrow> string list \<Rightarrow> string list" where
  "check_quantity_limits card_name qty cd reasons =
    (case SPECIAL_LIMIT_CARDS card_name of
       Some limit \<Rightarrow>
         if qty > limit
         then reasons @ [''Too many '' @ card_name @ '' (max '' @ str_int limit @ '')'']
         else reasons
     | None \<Rightarrow>
         if card_name \<notin> UNLIMITED_CARDS
            \<and> \<not> startswith (case type_line cd of None \<Rightarrow> [] | Some t \<Rightarrow> t) ''Basic''
            \<and> qty > 4
         then reasons @ [''Too many '' @ card_name @ '' (max 4)'']
         else reasons)"

definition check_card :: "session \<Rightarrow> string \<Rightarrow> string \<Rightarrow> int \<Rightarrow> string list \<Rightarrow> string list" where
  "check_card session fmt card_name qty reasons =
    (case checker_fetch_card_data session card_name reasons of
       (reasons1, cd) \<Rightarrow>
         if is_empty_dict cd then reasons1
         else check_quantity_limits card_name qty cd
                (check_format_legality fmt card_name cd reasons1))"

subsection \<open>All cards, concurrently\<close>

text \<open>
  \<open>check_all_cards\<close> starts one \<open>_check_card\<close> task per entry of
  \<open>maindeck + sidedeck\<close> and awaits \<open>asyncio.gather\<close>. Each task suspends only inside its
  fetch; what follows the fetch (the appends to \<open>self.reasons\<close>) runs without a suspension
  point. So the tasks append one after the other, in the order in which their fetches
  finish, and that order is the network's. The tasks take the permits of
  \<open>asyncio.Semaphore(10)\<close> in the order of the deck, a waiting task getting the permit a
  finished one gives back: the tasks that are fetching are the first ten of those still
  pending. The step relation lets any of them be the next to finish.
\<close>

definition rate_limit_permits :: nat where
  "rate_limit_permits = 10"

definition tasks :: "deck \<Rightarrow> card_entry list" where
  "tasks d = get_or_empty (maindeck d) @ get_or_empty (sidedeck d)"

inductive check_all_cards :: "session \<Rightarrow> string \<Rightarrow> card_entry list \<Rightarrow> string list \<Rightarrow> string list \<Rightarrow> bool"
  for session :: session and fmt :: string where
  all_done: "check_all_cards session fmt [] reasons reasons"
| one_finishes:
    "i < length pending \<Longrightarrow> i < rate_limit_permits \<Longrightarrow>
     check_all_cards session fmt (take i pending @ drop (Suc i) pending)
       (check_card session fmt (cardname (pending ! i)) (quantity (pending ! i)) reasons) reasons' \<Longrightarrow>
     check_all_cards session fmt pending reasons reasons'"

definition report :: "string \<Rightarrow> string list \<Rightarrow> string" where
  "report fmt reasons = (if reasons \<noteq> [] then join [CHR 0x0A] reasons else ''Legal in '' @ fmt)"

inductive run_checks :: "session \<Rightarrow> string \<Rightarrow> deck \<Rightarrow> string \<Rightarrow> bool" where
  run_checks_result:
    "check_all_cards session fmt (tasks d) (check_deck_size d fmt []) reasons \<Longrightarrow>
     run_checks session fmt d (report fmt reasons)"

section \<open>Sheet compositor (plotter.py)\<close>

subsection \<open>Python arithmetic and exceptions\<close>

datatype error =
  KeyError string | TypeError | ZeroDivisionError | NetworkError | ValueError | SaveError

text \<open>
  \<open>a // b\<close> and \<open>a % b\<close> on Python integers: floor division, the remainder with the sign
  of the divisor (as \<open>div\<close> and \<open>mod\<close> on \<open>int\<close>), and an exception when \<open>b\<close> is zero.
\<close>

definition py_floordiv :: "int \<Rightarrow> int \<Rightarrow> error + int" where
  "py_floordiv a b = (if b = 0 then Inl ZeroDivisionError else Inr (a div b))"

definition py_mod :: "int \<Rightarrow> int \<Rightarrow> error + int" where
  "py_mod a b = (if b = 0 then Inl ZeroDivisionError else Inr (a mod b))"

text \<open>\<open>p in s\<close> for strings: \<open>p\<close> occurs in \<open>s\<close>.\<close>

fun contains :: "string \<Rightarrow> string \<Rightarrow> bool" where
  "contains [] p = (p = [])"
| "contains (c # s) p = (if startswith (c # s) p then True else contains s p)"

text \<open>\<open>MTG_CARD_SIZE = (int(2.5 * PPI), int(3.5 * PPI))\<close> with \<open>PPI = 300\<close>.\<close>

definition MTG_CARD_SIZE :: "int \<times> int" where
  "MTG_CARD_SIZE = (750, 1050)"

subsection \<open>Canvas, files and the running state\<close>

text \<open>
  An image is whatever the image request returns (\<open>'img\<close>). A canvas is its size and the
  pastes made on it, in order: the image (resized to the card size) and the corner it is
  pasted at. \<open>saved\<close> holds the files written so far, oldest first. The price is kept as the
  list of summands \<open>(price, quantity)\<close>, each standing for \<open>float(price) * quantity\<close>:
  adding and rounding them is floating-point arithmetic and stays outside the model.

  Two calls of the imaging library can fail on the page itself. \<open>Image.new\<close> refuses a
  negative width or height with a \<open>ValueError\<close>. \<open>canvas.save\<close> cannot write an image
  without pixels, one of width or height 0; the class of that exception depends on the
  library's version and is named \<open>SaveError\<close> here.
\<close>

record 'img canvas =
  canvas_size :: "int \<times> int"
  pastes :: "('img \<times> int \<times> int) list"

definition blank_canvas :: "int \<times> int \<Rightarrow> 'img canvas" where
  "blank_canvas sz = \<lparr>canvas_size = sz, pastes = []\<rparr>"

definition Image_new :: "int \<times> int \<Rightarrow> error + 'img canvas" where
  "Image_new sz = (if fst sz < 0 \<or> snd sz < 0 then Inl ValueError else Inr (blank_canvas sz))"

text \<open>\<open>cv.save(file)\<close>, given the files written so far.\<close>

definition save ::
  "'img canvas \<Rightarrow> string \<Rightarrow> (string \<times> 'img canvas) list \<Rightarrow> error + (string \<times> 'img canvas) list" where
  "save cv file files =
    (if fst (canvas_size cv) \<le> 0 \<or> snd (canvas_size cv) \<le> 0 then Inl SaveError
     else Inr (files @ [(file, cv)]))"

record 'img plot_state =
  canvas :: "'img canvas"
  card_count :: int
  page_count :: int
  deck_price :: "(string \<times> int) list"
  saved :: "(string \<times> 'img canvas) list"

record layout =
  dimensions :: "int \<times> int"
  gap :: int
  cards_per_row :: int
  cards_per_col :: int
  max_cards :: int
  deck_name :: string

text \<open>The two requests of the plotter: card metadata by name, an image by URL.\<close>

record 'img net =
  card_json :: "string \<Rightarrow> string + card_data"
  image :: "string \<Rightarrow> string + 'img"

definition fetch_card_data :: "'img net \<Rightarrow> string \<Rightarrow> error + card_data" where
  "fetch_card_data n card_name =
    (case card_json n card_name of Inl e \<Rightarrow> Inl NetworkError | Inr response \<Rightarrow> Inr response)"

text \<open>
  \<open>asyncio.gather\<close> over \<open>fetch_image\<close>: the images in the order of the URLs, or the
  exception of a request that failed.
\<close>

fun fetch_images :: "'img net \<Rightarrow> string list \<Rightarrow> error + 'img list" where
  "fetch_images n [] = Inr []"
| "fetch_images n (url # urls) =
    (case image n url of
       Inl e \<Rightarrow> Inl NetworkError
     | Inr img \<Rightarrow> (case fetch_images n urls of Inl e \<Rightarrow> Inl e | Inr imgs \<Rightarrow> Inr (img # imgs)))"

definition page_file :: "layout \<Rightarrow> int \<Rightarrow> string" where
  "page_file L page = deck_name L @ ''_'' @ str_int page @ ''.png''"

subsection \<open>Placing images\<close>

text \<open>Lines 68 to 78: one pass of the innermost loop.\<close>

definition place :: "layout \<Rightarrow> 'img \<Rightarrow> 'img plot_state \<Rightarrow> error + 'img plot_state" where
  "place L img st =
    (case py_floordiv (card_count st) (cards_per_row L) of
       Inl e \<Rightarrow> Inl e
     | Inr q \<Rightarrow>
    (case py_mod (card_count st) (cards_per_row L) of
       Inl e \<Rightarrow> Inl e
     | Inr r \<Rightarrow>
      (let x = 50 + q * (fst MTG_CARD_SIZE + gap L);
           y = 50 + r * (snd MTG_CARD_SIZE + gap L);
           cv = (canvas st)\<lparr>pastes := pastes (canvas st) @ [(img, x, y)]\<rparr>;
           cnt = card_count st + 1
       in if cnt = max_cards L
          then (case save cv (page_file L (page_count st)) (saved st) of
                  Inl e \<Rightarrow> Inl e
                | Inr files \<Rightarrow>
                 (case Image_new (dimensions L) of
                    Inl e \<Rightarrow> Inl e
                  | Inr blank \<Rightarrow>
                      Inr (st\<lparr>canvas := blank,
                              card_count := 0,
                              page_count := page_count st + 1,
                              saved := files\<rparr>)))
          else Inr (st\<lparr>canvas := cv, card_count := cnt\<rparr>))))"

text \<open>\<open>for _ in range(quantity)\<close>, with \<open>n = nat quantity\<close> passes.\<close>

fun place_copies :: "layout \<Rightarrow> 'img \<Rightarrow> nat \<Rightarrow> 'img plot_state \<Rightarrow> error + 'img plot_state" where
  "place_copies L img 0 st = Inr st"
| "place_copies L img (Suc n) st =
    (case place L img st of Inl e \<Rightarrow> Inl e | Inr st' \<Rightarrow> place_copies L img n st')"

text \<open>\<open>for img in ...\<close>\<close>

fun place_images :: "layout \<Rightarrow> 'img list \<Rightarrow> int \<Rightarrow> 'img plot_state \<Rightarrow> error + 'img plot_state" where
  "place_images L [] qty st = Inr st"
| "place_images L (img # imgs) qty st =
    (case place_copies L img (nat qty) st of
       Inl e \<Rightarrow> Inl e
     | Inr st' \<Rightarrow> place_images L imgs qty st')"

subsection \<open>One deck entry\<close>

text \<open>\<open>d['large']\<close> for a dictionary of image addresses.\<close>

definition large_of :: "(string \<rightharpoonup> string) \<Rightarrow> error + string" where
  "large_of uris = (case uris ''large'' of None \<Rightarrow> Inl (KeyError ''large'') | Some u \<Rightarrow> Inr u)"

text \<open>The generator of line 58: \<open>face['image_uris']['large']\<close> for each face.\<close>

fun face_urls :: "card_face list \<Rightarrow> error + string list" where
  "face_urls [] = Inr []"
| "face_urls (face # faces) =
    (case face_image_uris face of
       None \<Rightarrow> Inl (KeyError ''image_uris'')
     | Some uris \<Rightarrow>
        (case large_of uris of
           Inl e \<Rightarrow> Inl e
         | Inr u \<Rightarrow> (case face_urls faces of Inl e \<Rightarrow> Inl e | Inr us \<Rightarrow> Inr (u # us))))"

text \<open>Lines 56 to 60.\<close>

definition image_sources :: "card_data \<Rightarrow> error + string list" where
  "image_sources response =
    (case image_uris response of
       None \<Rightarrow> face_urls (case card_faces response of None \<Rightarrow> [] | Some fs \<Rightarrow> fs)
     | Some uris \<Rightarrow> (case large_of uris of Inl e \<Rightarrow> Inl e | Inr u \<Rightarrow> Inr [u]))"

text \<open>
  The body of the loop over the deck, lines 47 to 78. \<open>price\<close> is bound by the assignment
  expression of line 50 whether or not it is truthy; line 63 multiplies it by the quantity
  inside an f-string, which is a repetition when \<open>price\<close> is a string and a \<open>TypeError\<close>
  when it is \<open>None\<close>.
\<close>

definition plot_card :: "layout \<Rightarrow> 'img net \<Rightarrow> bool \<Rightarrow> card_entry \<Rightarrow> 'img plot_state \<Rightarrow> error + 'img plot_state" where
  "plot_card L n basic entry st =
    (case fetch_card_data n (cardname entry) of
       Inl e \<Rightarrow> Inl e
     | Inr response \<Rightarrow>
      (let price = (case prices response of None \<Rightarrow> None | Some m \<Rightarrow> m ''usd'');
           st1 = (case price of
                    None \<Rightarrow> st
                  | Some p \<Rightarrow> if p \<noteq> []
                              then st\<lparr>deck_price := deck_price st @ [(p, quantity entry)]\<rparr>
                              else st)
       in if \<not> basic \<and> contains (case type_line response of None \<Rightarrow> [] | Some t \<Rightarrow> t) ''Basic Land''
          then Inr st1
          else
            (case image_sources response of
               Inl e \<Rightarrow> Inl e
             | Inr card_faces_urls \<Rightarrow>
                (case price of
                   None \<Rightarrow> Inl TypeError
                 | Some p \<Rightarrow>
                    (case fetch_images n card_faces_urls of
                       Inl e \<Rightarrow> Inl e
                     | Inr imgs \<Rightarrow> place_images L imgs (quantity entry) st1)))))"

fun plot_cards :: "layout \<Rightarrow> 'img net \<Rightarrow> bool \<Rightarrow> card_entry list \<Rightarrow> 'img plot_state \<Rightarrow> error + 'img plot_state" where
  "plot_cards L n basic [] st = Inr st"
| "plot_cards L n basic (entry # entries) st =
    (case plot_card L n basic entry st of
       Inl e \<Rightarrow> Inl e
     | Inr st' \<Rightarrow> plot_cards L n basic entries st')"

subsection \<open>The whole render\<close>

text \<open>
  \<open>name\<close> is \<open>Path(deck_path).stem\<close>. Creating the directory and pasting are taken to
  succeed, and so is \<open>float(price)\<close> on a price that is not empty (the catalog gives
  decimal strings). The result is the message, the summands of the price (the code returns
  their sum rounded to two places) and the files written.
\<close>

text \<open>Lines 40 to 43, given the canvas of line 40.\<close>

definition initial_state :: "'img canvas \<Rightarrow> 'img plot_state" where
  "initial_state cv =
    \<lparr>canvas = cv, card_count = 0, page_count = 1, deck_price = [], saved = []\<rparr>"

text \<open>Lines 83 and 84.\<close>

definition final_files :: "layout \<Rightarrow> 'img plot_state \<Rightarrow> error + (string \<times> 'img canvas) list" where
  "final_files L st =
    (if card_count st > 1 then save (canvas st) (page_file L (page_count st)) (saved st)
     else Inr (saved st))"

text \<open>Lines 33 to 38: the grid.\<close>

definition compute_layout :: "int \<times> int \<Rightarrow> int \<Rightarrow> string \<Rightarrow> error + layout" where
  "compute_layout dims g name =
    (case py_floordiv (fst dims - 100) (fst MTG_CARD_SIZE + g) of
       Inl e \<Rightarrow> Inl e
     | Inr per_row \<Rightarrow>
    (case py_floordiv (snd dims - 100) (snd MTG_CARD_SIZE + g) of
       Inl e \<Rightarrow> Inl e
     | Inr per_col \<Rightarrow>
        Inr \<lparr>dimensions = dims, gap = g, cards_per_row = per_row, cards_per_col = per_col,
             max_cards = per_row * per_col, deck_name = name\<rparr>))"

definition plot_deck_async ::
  "'img net \<Rightarrow> deck \<Rightarrow> bool \<Rightarrow> int \<times> int \<Rightarrow> string \<Rightarrow> int \<Rightarrow>
   error + (string \<times> (string \<times> int) list \<times> (string \<times> 'img canvas) list)" where
  "plot_deck_async n d basic dims name g =
    (case compute_layout dims g name of
       Inl e \<Rightarrow> Inl e
     | Inr L \<Rightarrow>
      (case Image_new dims of
         Inl e \<Rightarrow> Inl e
       | Inr cv \<Rightarrow>
      (case maindeck d of
         None \<Rightarrow> Inl (KeyError ''maindeck'')
       | Some main \<Rightarrow>
        (case sidedeck d of
           None \<Rightarrow> Inl (KeyError ''sidedeck'')
         | Some side \<Rightarrow>
          (case plot_cards L n basic (main @ side) (initial_state cv) of
             Inl e \<Rightarrow> Inl e
           | Inr st \<Rightarrow>
            (case final_files L st of
               Inl e \<Rightarrow> Inl e
             | Inr files \<Rightarrow> Inr (''Deck saved to Decks/'' @ name, deck_price st, files)))))))"

section \<open>Derived notions and example inputs\<close>

text \<open>What one card adds to the reasons: \<open>_check_card\<close> run on an empty list.\<close>

definition card_reasons :: "session \<Rightarrow> string \<Rightarrow> card_entry \<Rightarrow> string list" where
  "card_reasons session fmt c = check_card session fmt (cardname c) (quantity c) []"

text \<open>
  The report as the specification words it: the size messages, then the cards' messages
  in the order of the deck, maindeck first.
\<close>

definition spec_run_checks :: "session \<Rightarrow> string \<Rightarrow> deck \<Rightarrow> string" where
  "spec_run_checks session fmt d =
    report fmt (check_deck_size d fmt [] @ concat (map (card_reasons session fmt) (tasks d)))"

text \<open>A small catalog and a sixty-card deck with two banned cards, used as concrete inputs.\<close>

definition example_card :: "string \<Rightarrow> string \<Rightarrow> string option \<Rightarrow> card_data" where
  "example_card status tline usd =
    \<lparr>legalities = Some [''modern'' \<mapsto> status], type_line = Some tline,
     prices = Some (\<lambda>k. if k = ''usd'' then usd else None),
     image_uris = Some [''large'' \<mapsto> ''https://img/'' @ tline], card_faces = None,
     other_keys = [''name'']\<rparr>"

definition example_session :: session where
  "example_session name =
    (if name = ''Forest'' then Inr (example_card ''legal'' ''Basic Land - Forest'' (Some ''0.10''))
     else if name = ''Opt'' then Inr (example_card ''legal'' ''Instant'' (Some ''1.50''))
     else if name = ''Mental Misstep'' then Inr (example_card ''banned'' ''Instant'' None)
     else if name = ''Gitaxian Probe'' then Inr (example_card ''banned'' ''Sorcery'' (Some ''0.25''))
     else if name = ''Once Upon a Time'' then Inr (example_card ''not_legal'' ''Instant'' (Some ''2.00''))
     else if name = ''Blank'' then Inr (example_card [] ''Instant'' (Some ''2.00''))
     else Inl ''404'')"

definition example_deck :: deck where
  "example_deck =
    \<lparr>maindeck = Some [\<lparr>cardname = ''Forest'', quantity = 58\<rparr>,
                      \<lparr>cardname = ''Mental Misstep'', quantity = 1\<rparr>,
                      \<lparr>cardname = ''Gitaxian Probe'', quantity = 1\<rparr>],
     sidedeck = Some []\<rparr>"


text \<open>
  The corner at which the \<open>i\<close>-th image of a page (counting from 0) is pasted, as lines 68
  and 69 compute it for \<open>card_count = i\<close>.
\<close>

definition paste_position :: "layout \<Rightarrow> int \<Rightarrow> int \<times> int" where
  "paste_position L i =
    (50 + (i div cards_per_row L) * (fst MTG_CARD_SIZE + gap L),
     50 + (i mod cards_per_row L) * (snd MTG_CARD_SIZE + gap L))"

text \<open>The pastes of a canvas sit at the positions of their indices.\<close>

definition placed_in_order :: "layout \<Rightarrow> 'img canvas \<Rightarrow> bool" where
  "placed_in_order L cv =
    list_all (\<lambda>(i, p). snd p = paste_position L (int i)) (enumerate 0 (pastes cv))"

text \<open>
  The plotter's network for the examples: the catalog above, and every image request
  answered by an image named after its address.
\<close>

definition example_net :: "string net" where
  "example_net = \<lparr>card_json = example_session, image = (\<lambda>url. Inr url)\<rparr>"

text \<open>The deck of the specification's price example: a priced card twice, an unpriced card thrice.\<close>

definition priced_and_unpriced :: deck where
  "priced_and_unpriced =
    \<lparr>maindeck = Some [\<lparr>cardname = ''Opt'', quantity = 2\<rparr>,
                      \<lparr>cardname = ''Mental Misstep'', quantity = 3\<rparr>],
     sidedeck = Some []\<rparr>"

text \<open>
  What holds of the running state throughout a render: the page number is one more than
  the number of files written, the files are named by the page numbers from 1 on, every
  written page is full and its pastes sit at the positions of their indices, and the
  counter is the number of pastes on the current canvas.
\<close>

definition sheet_inv :: "layout \<Rightarrow> 'img plot_state \<Rightarrow> bool" where
  "sheet_inv L st =
    (page_count st = 1 + int (length (saved st))
     \<and> map fst (saved st) = map (page_file L) [1 .. int (length (saved st))]
     \<and> list_all (\<lambda>(f, cv). int (length (pastes cv)) = max_cards L \<and> placed_in_order L cv
                            \<and> canvas_size cv = dimensions L) (saved st)
     \<and> card_count st = int (length (pastes (canvas st)))
     \<and> placed_in_order L (canvas st)
     \<and> canvas_size (canvas st) = dimensions L)"


text \<open>Decks and a page for the examples of the compositor.\<close>

definition ten_forests :: deck where
  "ten_forests = \<lparr>maindeck = Some [\<lparr>cardname = ''Forest'', quantity = 10\<rparr>], sidedeck = Some []\<rparr>"


definition forest_page :: "string canvas" where
  "forest_page =
    \<lparr>canvas_size = (2480, 3508),
     pastes = map (\<lambda>p. (''https://img/Basic Land - Forest'', p))
       [(50, 50), (50, 1100), (50, 2150), (800, 50), (800, 1100), (800, 2150),
        (1550, 50), (1550, 1100), (1550, 2150)]\<rparr>"


section \<open>Properties of the checker\<close>

subsection \<open>Helper facts\<close>

lemma str_nat_digit: "n < 10 \<Longrightarrow> str_nat n = [digit_char n]"
  by (simp add: str_nat.simps)

subsection \<open>Deck size\<close>

text \<open>
  C3. \<open>check_deck_size\<close> appends, for the format \<open>commander\<close>, one message iff the maindeck
  total is not 99 and another iff the sidedeck total is not 1; for any other format one
  message iff the maindeck total is below 60 and another iff the sidedeck total is above
  15. The two tests do not depend on each other, so both messages can appear.
\<close>

theorem check_deck_size_rule:
  "(fmt = ''commander'' \<longrightarrow>
      check_deck_size d fmt reasons =
        reasons
        @ (if count_cards (maindeck d) \<noteq> 99
           then [''Commander deck has '' @ str_int (count_cards (maindeck d)) @ ''/99 cards'']
           else [])
        @ (if count_cards (sidedeck d) \<noteq> 1
           then [''Has '' @ str_int (count_cards (sidedeck d)) @ '' commanders (needs 1)'']
           else []))
   \<and> (fmt \<noteq> ''commander'' \<longrightarrow>
      check_deck_size d fmt reasons =
        reasons
        @ (if count_cards (maindeck d) < 60
           then [''Maindeck has '' @ str_int (count_cards (maindeck d)) @ ''/60 cards'']
           else [])
        @ (if count_cards (sidedeck d) > 15
           then [''Sideboard has '' @ str_int (count_cards (sidedeck d)) @ ''/15 cards'']
           else []))"
  by (simp add: check_deck_size_def Let_def)

theorem check_deck_size_rule_witness:
  "check_deck_size
     \<lparr>maindeck = Some [\<lparr>cardname = ''Forest'', quantity = 40\<rparr>, \<lparr>cardname = ''Opt'', quantity = 4\<rparr>],
      sidedeck = Some [\<lparr>cardname = ''Duress'', quantity = 16\<rparr>]\<rparr> ''modern'' []
     = [''Maindeck has 44/60 cards'', ''Sideboard has 16/15 cards'']
   \<and> check_deck_size
     \<lparr>maindeck = Some [\<lparr>cardname = ''Forest'', quantity = 99\<rparr>],
      sidedeck = Some [\<lparr>cardname = ''Omnath'', quantity = 1\<rparr>]\<rparr> ''commander'' [] = []"
  using
    check_deck_size_rule [of "''modern''"
      "\<lparr>maindeck = Some [\<lparr>cardname = ''Forest'', quantity = 40\<rparr>, \<lparr>cardname = ''Opt'', quantity = 4\<rparr>],
        sidedeck = Some [\<lparr>cardname = ''Duress'', quantity = 16\<rparr>]\<rparr>" "[]"]
    check_deck_size_rule [of "''commander''"
      "\<lparr>maindeck = Some [\<lparr>cardname = ''Forest'', quantity = 99\<rparr>],
        sidedeck = Some [\<lparr>cardname = ''Omnath'', quantity = 1\<rparr>]\<rparr>" "[]"]
  by (simp add: count_cards_def get_or_empty_def str_int_def str_nat.simps digit_char_def)

subsection \<open>The order of the reasons\<close>

lemmas example_defs = example_deck_def example_session_def example_card_def
lemmas checker_defs = check_card_def checker_fetch_card_data_def is_empty_dict_def empty_dict_def
  check_format_legality_def check_quantity_limits_def SPECIAL_LIMIT_CARDS_def UNLIMITED_CARDS_def
  startswith_def replace_underscores_def


lemma check_format_legality_append:
  "check_format_legality fmt n cd rs = rs @ check_format_legality fmt n cd []"
  by (simp add: check_format_legality_def Let_def)

lemma check_quantity_limits_append:
  "check_quantity_limits n q cd rs = rs @ check_quantity_limits n q cd []"
  by (simp add: check_quantity_limits_def split: option.splits)

lemma check_card_fetched:
  "session n = Inr cd \<Longrightarrow> \<not> is_empty_dict cd \<Longrightarrow>
   check_card session fmt n q rs =
     rs @ check_format_legality fmt n cd [] @ check_quantity_limits n q cd []"
  using check_format_legality_append [of fmt n cd rs]
    check_quantity_limits_append [of n q cd "check_format_legality fmt n cd rs"]
  by (simp add: check_card_def checker_fetch_card_data_def)

lemma check_card_append:
  "check_card session fmt n q rs = rs @ check_card session fmt n q []"
proof (cases "session n")
  case (Inl e)
  then show ?thesis by (simp add: check_card_def checker_fetch_card_data_def empty_dict_def is_empty_dict_def)
next
  case (Inr cd)
  show ?thesis
  proof (cases "is_empty_dict cd")
    case True
    with Inr show ?thesis by (simp add: check_card_def checker_fetch_card_data_def)
  next
    case False
    with Inr show ?thesis by (simp add: check_card_fetched)
  qed
qed

lemma mset_remove_nth:
  "i < length xs \<Longrightarrow> mset (take i xs @ drop (Suc i) xs) + {#xs ! i#} = mset xs"
  by (metis add_mset_add_single id_take_nth_drop mset.simps(2) mset_append union_mset_add_mset_right)

lemma check_all_cards_sound:
  "check_all_cards session fmt pending rs rs' \<Longrightarrow>
   \<exists>order. mset order = mset pending \<and> rs' = rs @ concat (map (card_reasons session fmt) order)"
proof (induction rule: check_all_cards.induct)
  case (all_done reasons)
  then show ?case by simp
next
  case (one_finishes i pending reasons reasons')
  then obtain order where o: "mset order = mset (take i pending @ drop (Suc i) pending)"
    and r: "reasons' = check_card session fmt (cardname (pending ! i)) (quantity (pending ! i)) reasons
              @ concat (map (card_reasons session fmt) order)"
    by blast
  have "mset (pending ! i # order) = mset pending"
    using o mset_remove_nth [OF one_finishes.hyps(1)] by simp
  moreover have "card_reasons session fmt (pending ! i)
      = check_card session fmt (cardname (pending ! i)) (quantity (pending ! i)) []"
    by (simp add: card_reasons_def)
  then have "reasons' = reasons @ concat (map (card_reasons session fmt) (pending ! i # order))"
    using r check_card_append [of session fmt "cardname (pending ! i)" "quantity (pending ! i)" reasons]
    by simp
  ultimately show ?case by blast
qed

lemma check_all_cards_deck_order:
  "check_all_cards session fmt pending rs (rs @ concat (map (card_reasons session fmt) pending))"
proof (induction pending arbitrary: rs)
  case Nil
  show ?case by (simp add: all_done)
next
  case (Cons c cs)
  have "check_all_cards session fmt cs (check_card session fmt (cardname c) (quantity c) rs)
          (check_card session fmt (cardname c) (quantity c) rs
           @ concat (map (card_reasons session fmt) cs))"
    by (rule Cons.IH)
  then have "check_all_cards session fmt (c # cs) rs
          (check_card session fmt (cardname c) (quantity c) rs
           @ concat (map (card_reasons session fmt) cs))"
    using one_finishes [of 0 "c # cs" session fmt rs] by (simp add: rate_limit_permits_def)
  moreover have "card_reasons session fmt c = check_card session fmt (cardname c) (quantity c) []"
    by (simp add: card_reasons_def)
  ultimately show ?case
    using check_card_append [of session fmt "cardname c" "quantity c" rs]
    by simp
qed

lemma check_all_cards_complete:
  "length pending \<le> rate_limit_permits \<Longrightarrow> mset order = mset pending \<Longrightarrow>
   check_all_cards session fmt pending rs (rs @ concat (map (card_reasons session fmt) order))"
proof (induction order arbitrary: pending rs)
  case Nil
  then show ?case by (simp add: all_done)
next
  case (Cons c cs)
  then have "c \<in> set pending"
    by (metis list.set_intros(1) set_mset_mset)
  then obtain i where i: "i < length pending" "pending ! i = c"
    by (auto simp: in_set_conv_nth)
  have permit: "i < rate_limit_permits"
    using i(1) Cons.prems(1) by simp
  have "mset (take i pending @ drop (Suc i) pending) + {#c#} = mset cs + {#c#}"
    using mset_remove_nth [OF i(1)] i(2) Cons.prems(2) by simp
  then have m: "mset cs = mset (take i pending @ drop (Suc i) pending)"
    by simp
  have len: "length (take i pending @ drop (Suc i) pending) \<le> rate_limit_permits"
    using Cons.prems(1) by simp
  have "check_all_cards session fmt (take i pending @ drop (Suc i) pending)
          (check_card session fmt (cardname c) (quantity c) rs)
          (check_card session fmt (cardname c) (quantity c) rs @ concat (map (card_reasons session fmt) cs))"
    by (rule Cons.IH [OF len m])
  then have "check_all_cards session fmt pending rs
          (check_card session fmt (cardname c) (quantity c) rs @ concat (map (card_reasons session fmt) cs))"
    using i permit one_finishes [of i pending session fmt rs] by simp
  moreover have "card_reasons session fmt c = check_card session fmt (cardname c) (quantity c) []"
    by (simp add: card_reasons_def)
  ultimately show ?case
    using check_card_append [of session fmt "cardname c" "quantity c" rs]
    by simp
qed

text \<open>
  C1 as stated fails: the per-card messages come in the order in which the fetches
  finish, not in the order of the deck. With the second banned card answering first, the
  report lists it first, while the specification's report lists the deck's order.
\<close>

theorem run_checks_order_counterexample:
  "run_checks example_session ''modern'' example_deck
     (''Gitaxian Probe is banned in modern'' @ [CHR 0x0A] @ ''Mental Misstep is banned in modern'')
   \<and> spec_run_checks example_session ''modern'' example_deck
       = ''Mental Misstep is banned in modern'' @ [CHR 0x0A] @ ''Gitaxian Probe is banned in modern''"
proof
  let ?order = "[\<lparr>cardname = ''Gitaxian Probe'', quantity = 1\<rparr>,
                 \<lparr>cardname = ''Forest'', quantity = 58\<rparr>,
                 \<lparr>cardname = ''Mental Misstep'', quantity = 1\<rparr>]"
  have "length (tasks example_deck) \<le> rate_limit_permits"
    and "mset ?order = mset (tasks example_deck)"
    by (simp_all add: tasks_def example_deck_def get_or_empty_def rate_limit_permits_def)
  then have "check_all_cards example_session ''modern'' (tasks example_deck)
               (check_deck_size example_deck ''modern'' [])
               (check_deck_size example_deck ''modern'' []
                @ concat (map (card_reasons example_session ''modern'') ?order))"
    by (rule check_all_cards_complete)
  then have "run_checks example_session ''modern'' example_deck
               (report ''modern'' (check_deck_size example_deck ''modern'' []
                @ concat (map (card_reasons example_session ''modern'') ?order)))"
    by (rule run_checks_result)
  moreover have "report ''modern'' (check_deck_size example_deck ''modern'' []
                @ concat (map (card_reasons example_session ''modern'') ?order))
      = ''Gitaxian Probe is banned in modern'' @ [CHR 0x0A] @ ''Mental Misstep is banned in modern''"
    by (simp add: report_def check_deck_size_def count_cards_def get_or_empty_def
        card_reasons_def example_defs checker_defs)
  ultimately show "run_checks example_session ''modern'' example_deck
     (''Gitaxian Probe is banned in modern'' @ [CHR 0x0A] @ ''Mental Misstep is banned in modern'')"
    by simp
next
  show "spec_run_checks example_session ''modern'' example_deck
       = ''Mental Misstep is banned in modern'' @ [CHR 0x0A] @ ''Gitaxian Probe is banned in modern''"
    by (simp add: spec_run_checks_def tasks_def report_def check_deck_size_def count_cards_def
        get_or_empty_def card_reasons_def example_defs checker_defs)
qed

lemma card_reasons_cases:
  "card_reasons session fmt c =
    (case session (cardname c) of
       Inl e \<Rightarrow> [''Error checking '' @ cardname c @ '': '' @ e]
     | Inr cd \<Rightarrow> if is_empty_dict cd then []
                else check_format_legality fmt (cardname c) cd []
                     @ check_quantity_limits (cardname c) (quantity c) cd [])"
proof (cases "session (cardname c)")
  case (Inl e)
  then show ?thesis
    by (simp add: card_reasons_def check_card_def checker_fetch_card_data_def
        empty_dict_def is_empty_dict_def)
next
  case (Inr cd)
  then show ?thesis
    using check_card_fetched [of session "cardname c" cd fmt "quantity c" "[]"]
    by (simp add: card_reasons_def check_card_def checker_fetch_card_data_def)
qed

text \<open>
  C1, amended. \<open>run_checks\<close> returns \<open>Legal in fmt\<close> when no reason was appended and
  otherwise the reasons joined by newlines: the size messages first (maindeck, then
  sideboard), then one block per deck entry, the blocks in the order in which the fetches
  finish, which is some arrangement of the entries of maindeck and sidedeck. The order of
  the deck is always one of the possible arrangements, and for a deck of at most ten
  entries every arrangement is. Within a block the legality message precedes the quantity
  message, and a failed fetch gives the single error message.
\<close>

theorem run_checks_completion_order:
  "(run_checks session fmt d out \<longrightarrow>
      (\<exists>order. mset order = mset (tasks d)
        \<and> out = report fmt (check_deck_size d fmt []
                             @ concat (map (card_reasons session fmt) order))))
   \<and> run_checks session fmt d
        (report fmt (check_deck_size d fmt [] @ concat (map (card_reasons session fmt) (tasks d))))
   \<and> (length (tasks d) \<le> 10 \<and> mset order' = mset (tasks d) \<longrightarrow>
        run_checks session fmt d
          (report fmt (check_deck_size d fmt [] @ concat (map (card_reasons session fmt) order'))))
   \<and> report fmt [] = ''Legal in '' @ fmt
   \<and> report fmt (r # rs) = join [CHR 0x0A] (r # rs)
   \<and> card_reasons session fmt c =
       (case session (cardname c) of
          Inl e \<Rightarrow> [''Error checking '' @ cardname c @ '': '' @ e]
        | Inr cd \<Rightarrow> if is_empty_dict cd then []
                   else check_format_legality fmt (cardname c) cd []
                        @ check_quantity_limits (cardname c) (quantity c) cd [])"
proof -
  have sound: "\<exists>order. mset order = mset (tasks d)
        \<and> out = report fmt (check_deck_size d fmt []
                             @ concat (map (card_reasons session fmt) order))"
    if "run_checks session fmt d out"
  proof -
    from that obtain reasons where
      "check_all_cards session fmt (tasks d) (check_deck_size d fmt []) reasons"
      and "out = report fmt reasons"
      by (auto elim: run_checks.cases)
    then show ?thesis
      using check_all_cards_sound by blast
  qed
  have deck_order: "run_checks session fmt d
        (report fmt (check_deck_size d fmt [] @ concat (map (card_reasons session fmt) (tasks d))))"
    by (intro run_checks_result check_all_cards_deck_order)
  have any_order: "run_checks session fmt d
          (report fmt (check_deck_size d fmt [] @ concat (map (card_reasons session fmt) order')))"
    if "length (tasks d) \<le> 10" and "mset order' = mset (tasks d)"
    using that by (intro run_checks_result check_all_cards_complete)
      (simp_all add: rate_limit_permits_def)
  show ?thesis
    using sound deck_order any_order card_reasons_cases [of session fmt c]
    by (simp add: report_def)
qed

theorem run_checks_completion_order_witness:
  "run_checks example_session ''modern''
     \<lparr>maindeck = Some [\<lparr>cardname = ''Forest'', quantity = 56\<rparr>, \<lparr>cardname = ''Opt'', quantity = 4\<rparr>],
      sidedeck = Some []\<rparr> ''Legal in modern''
   \<and> run_checks example_session ''modern'' example_deck
       (''Gitaxian Probe is banned in modern'' @ [CHR 0x0A] @ ''Mental Misstep is banned in modern'')
   \<and> (\<exists>order. mset order = mset (tasks example_deck)
        \<and> ''Gitaxian Probe is banned in modern'' @ [CHR 0x0A] @ ''Mental Misstep is banned in modern''
            = report ''modern'' (check_deck_size example_deck ''modern'' []
                @ concat (map (card_reasons example_session ''modern'') order)))"
proof -
  let ?d = "\<lparr>maindeck = Some [\<lparr>cardname = ''Forest'', quantity = 56\<rparr>, \<lparr>cardname = ''Opt'', quantity = 4\<rparr>],
      sidedeck = Some []\<rparr>"
  let ?order = "[\<lparr>cardname = ''Gitaxian Probe'', quantity = 1\<rparr>,
                 \<lparr>cardname = ''Forest'', quantity = 58\<rparr>,
                 \<lparr>cardname = ''Mental Misstep'', quantity = 1\<rparr>]"
  let ?out = "''Gitaxian Probe is banned in modern'' @ [CHR 0x0A] @ ''Mental Misstep is banned in modern''"
  have legal: "report ''modern'' (check_deck_size ?d ''modern'' []
          @ concat (map (card_reasons example_session ''modern'') (tasks ?d))) = ''Legal in modern''"
    by (simp add: tasks_def report_def check_deck_size_def count_cards_def
        get_or_empty_def card_reasons_def example_defs checker_defs)
  have first: "run_checks example_session ''modern'' ?d ''Legal in modern''"
    using run_checks_completion_order [of example_session "''modern''" ?d, THEN conjunct2,
        THEN conjunct1] legal
    by simp
  have few: "length (tasks example_deck) \<le> 10 \<and> mset ?order = mset (tasks example_deck)"
    by (simp add: tasks_def example_deck_def get_or_empty_def)
  have out: "report ''modern'' (check_deck_size example_deck ''modern'' []
                @ concat (map (card_reasons example_session ''modern'') ?order)) = ?out"
    by (simp add: report_def check_deck_size_def count_cards_def get_or_empty_def
        card_reasons_def example_defs checker_defs)
  have second: "run_checks example_session ''modern'' example_deck ?out"
    using run_checks_completion_order [of example_session "''modern''" example_deck undefined ?order,
        THEN conjunct2, THEN conjunct2, THEN conjunct1] few out
    by simp
  have third: "\<exists>order. mset order = mset (tasks example_deck)
        \<and> ?out = report ''modern'' (check_deck_size example_deck ''modern'' []
                @ concat (map (card_reasons example_session ''modern'') order))"
    using run_checks_completion_order [of example_session "''modern''" example_deck ?out,
        THEN conjunct1] second
    by blast
  show ?thesis
    using first second third by blast
qed

subsection \<open>The rules for one card\<close>

lemma startswith_Basic: "startswith t ''Basic'' \<longleftrightarrow> take 5 t = ''Basic''"
  by (simp add: startswith_def numeral_eq_Suc)

text \<open>
  C4. For a card whose metadata was fetched, the quantity rule is decided in this order:
  \<open>Seven Dwarves\<close> is reported iff the quantity exceeds 7; otherwise a name of the
  unlimited list is never reported; otherwise a card whose type line begins with
  \<open>Basic\<close> is never reported; otherwise exactly one message naming the maximum 4 is
  appended iff the quantity exceeds 4. The message follows whatever the legality check
  appended.
\<close>

theorem quantity_rule_precedence:
  assumes "session n = Inr cd" and "\<not> is_empty_dict cd"
  shows "check_card session fmt n q rs =
     check_format_legality fmt n cd rs
     @ (if n = ''Seven Dwarves'' then
          (if q > 7 then [''Too many Seven Dwarves (max 7)''] else [])
        else if n \<in> {''Persistent Petitioners'', ''Rat Colony'', ''Relentless Rats'',
                      ''Shadowborn Apostle'', ''Dragon's Approach''} then []
        else if (case type_line cd of None \<Rightarrow> False | Some t \<Rightarrow> take 5 t = ''Basic'') then []
        else if q > 4 then [''Too many '' @ n @ '' (max 4)'']
        else [])"
proof -
  have "check_card session fmt n q rs
        = check_quantity_limits n q cd (check_format_legality fmt n cd rs)"
    using assms by (simp add: check_card_def checker_fetch_card_data_def)
  also have "\<dots> = check_format_legality fmt n cd rs @ check_quantity_limits n q cd []"
    by (rule check_quantity_limits_append)
  also have "check_quantity_limits n q cd [] =
      (if n = ''Seven Dwarves'' then
          (if q > 7 then [''Too many Seven Dwarves (max 7)''] else [])
        else if n \<in> {''Persistent Petitioners'', ''Rat Colony'', ''Relentless Rats'',
                      ''Shadowborn Apostle'', ''Dragon's Approach''} then []
        else if (case type_line cd of None \<Rightarrow> False | Some t \<Rightarrow> take 5 t = ''Basic'') then []
        else if q > 4 then [''Too many '' @ n @ '' (max 4)'']
        else [])"
    by (simp add: check_quantity_limits_def SPECIAL_LIMIT_CARDS_def UNLIMITED_CARDS_def
        startswith_Basic str_int_def str_nat_digit digit_char_def split: option.splits)
  finally show ?thesis .
qed

theorem quantity_rule_precedence_witness:
  "check_card example_session ''modern'' ''Opt'' 5 [] = [''Too many Opt (max 4)'']
   \<and> check_card example_session ''modern'' ''Forest'' 58 [] = []"
  using quantity_rule_precedence [of example_session "''Opt''" "example_card ''legal'' ''Instant'' (Some ''1.50'')" "''modern''" 5 "[]"]
    quantity_rule_precedence [of example_session "''Forest''" "example_card ''legal'' ''Basic Land - Forest'' (Some ''0.10'')" "''modern''" 58 "[]"]
  by (simp add: example_defs is_empty_dict_def check_format_legality_def)

text \<open>
  C5 as stated fails on a status that is present but empty: the code tests the status for
  truth, so the empty string is reported as \<open>not found\<close> and not displayed.
\<close>

theorem legality_message_counterexample:
  "check_card example_session ''modern'' ''Blank'' 1 [] = [''Blank is not found in modern'']
   \<and> check_card example_session ''modern'' ''Blank'' 1 []
       \<noteq> [''Blank is '' @ replace_underscores [] @ '' in modern'']
   \<and> example_session ''Blank'' = Inr (example_card [] ''Instant'' (Some ''2.00''))
   \<and> legalities (example_card [] ''Instant'' (Some ''2.00'')) = Some [''modern'' \<mapsto> []]"
  by (simp add: example_defs checker_defs)

text \<open>
  C5, amended. For a card whose metadata was fetched, a legality message is appended iff
  the status of the format is not exactly \<open>legal\<close>; a status that is missing or empty is
  reported as \<open>not found\<close>, and any other status is shown with each underscore replaced
  by a space. The quantity check then runs on the extended list.
\<close>

theorem legality_rule:
  assumes "session n = Inr cd" and "\<not> is_empty_dict cd"
  shows "check_card session fmt n q rs =
     check_quantity_limits n q cd
       (rs @ (case (case legalities cd of None \<Rightarrow> None | Some m \<Rightarrow> m fmt) of
                None \<Rightarrow> [n @ '' is not found in '' @ fmt]
              | Some s \<Rightarrow>
                  if s = ''legal'' then []
                  else if s = [] then [n @ '' is not found in '' @ fmt]
                  else [n @ '' is '' @ map (\<lambda>c. if c = CHR ''_'' then CHR '' '' else c) s
                          @ '' in '' @ fmt]))"
  using assms
  by (simp add: check_card_def checker_fetch_card_data_def check_format_legality_def Let_def
      replace_underscores_def split: option.splits)

theorem legality_rule_witness:
  "check_card example_session ''modern'' ''Once Upon a Time'' 4 []
     = [''Once Upon a Time is not legal in modern'']
   \<and> check_card example_session ''modern'' ''Opt'' 4 [] = []
   \<and> check_card example_session ''legacy'' ''Opt'' 4 [] = [''Opt is not found in legacy'']"
  using legality_rule [of example_session "''Once Upon a Time''" "example_card ''not_legal'' ''Instant'' (Some ''2.00'')" "''modern''" 4 "[]"]
    legality_rule [of example_session "''Opt''" "example_card ''legal'' ''Instant'' (Some ''1.50'')" "''modern''" 4 "[]"]
    legality_rule [of example_session "''Opt''" "example_card ''legal'' ''Instant'' (Some ''1.50'')" "''legacy''" 4 "[]"]
  by (simp add: example_defs is_empty_dict_def check_quantity_limits_def SPECIAL_LIMIT_CARDS_def
      UNLIMITED_CARDS_def startswith_def)

text \<open>
  C6. A failed fetch raises nothing: it appends \<open>Error checking name: error\<close>, returns the
  empty dictionary, and the card's legality and quantity checks are skipped, so the error
  message is all the card adds. The batch always finishes, and whatever it finishes with
  holds the contribution of every pending card.
\<close>

theorem fetch_error_is_contained:
  "(session n = Inl e \<longrightarrow>
      checker_fetch_card_data session n rs = (rs @ [''Error checking '' @ n @ '': '' @ e], empty_dict)
      \<and> check_card session fmt n q rs = rs @ [''Error checking '' @ n @ '': '' @ e])
   \<and> (\<exists>rs'. check_all_cards session fmt pending rs rs')
   \<and> (check_all_cards session fmt pending rs rs' \<longrightarrow>
        (\<exists>order. mset order = mset pending
                 \<and> rs' = rs @ concat (map (card_reasons session fmt) order)))"
proof (intro conjI impI)
  assume "session n = Inl e"
  then show "checker_fetch_card_data session n rs
      = (rs @ [''Error checking '' @ n @ '': '' @ e], empty_dict)"
    by (simp add: checker_fetch_card_data_def)
  then show "check_card session fmt n q rs = rs @ [''Error checking '' @ n @ '': '' @ e]"
    by (simp add: check_card_def is_empty_dict_def empty_dict_def)
next
  have "check_all_cards session fmt pending rs
          (rs @ concat (map (card_reasons session fmt) pending))"
    by (rule check_all_cards_deck_order)
  then show "\<exists>rs'. check_all_cards session fmt pending rs rs'" ..
next
  assume "check_all_cards session fmt pending rs rs'"
  then show "\<exists>order. mset order = mset pending
                 \<and> rs' = rs @ concat (map (card_reasons session fmt) order)"
    by (rule check_all_cards_sound)
qed

theorem fetch_error_is_contained_witness:
  "check_card example_session ''modern'' ''Storm Crow'' 9 [] = [''Error checking Storm Crow: 404'']
   \<and> check_all_cards example_session ''modern''
         [\<lparr>cardname = ''Storm Crow'', quantity = 9\<rparr>, \<lparr>cardname = ''Opt'', quantity = 5\<rparr>] []
         [''Too many Opt (max 4)'', ''Error checking Storm Crow: 404'']
   \<and> (\<exists>order. mset order
                  = mset [\<lparr>cardname = ''Storm Crow'', quantity = 9\<rparr>, \<lparr>cardname = ''Opt'', quantity = 5\<rparr>]
          \<and> [''Too many Opt (max 4)'', ''Error checking Storm Crow: 404'']
              = [] @ concat (map (card_reasons example_session ''modern'') order))"
proof -
  let ?pending = "[\<lparr>cardname = ''Storm Crow'', quantity = 9\<rparr>, \<lparr>cardname = ''Opt'', quantity = 5\<rparr>]"
  let ?order = "[\<lparr>cardname = ''Opt'', quantity = 5\<rparr>, \<lparr>cardname = ''Storm Crow'', quantity = 9\<rparr>]"
  let ?out = "[''Too many Opt (max 4)'', ''Error checking Storm Crow: 404'']"
  note inst = fetch_error_is_contained [of example_session "''Storm Crow''" "''404''" "[]"
      "''modern''" 9 ?pending ?out]
  have fails: "example_session ''Storm Crow'' = Inl ''404''"
    by (simp add: example_session_def)
  have "length ?pending \<le> rate_limit_permits" and "mset ?order = mset ?pending"
    by (simp_all add: rate_limit_permits_def)
  then have "check_all_cards example_session ''modern'' ?pending []
               ([] @ concat (map (card_reasons example_session ''modern'') ?order))"
    by (rule check_all_cards_complete)
  moreover have "[] @ concat (map (card_reasons example_session ''modern'') ?order) = ?out"
    by (simp add: card_reasons_def example_defs checker_defs)
  ultimately have run: "check_all_cards example_session ''modern'' ?pending [] ?out"
    by simp
  from inst fails have "check_card example_session ''modern'' ''Storm Crow'' 9 []
      = [''Error checking Storm Crow: 404'']"
    by simp
  moreover from inst run have "\<exists>order. mset order = mset ?pending
      \<and> ?out = [] @ concat (map (card_reasons example_session ''modern'') order)"
    by blast
  ultimately show ?thesis using run by blast
qed

section \<open>Properties of the sheet compositor\<close>

subsection \<open>An entry without a price\<close>

lemma plot_card_price_absent:
  assumes "card_json n (cardname entry) = Inr response"
    and "(case prices response of None \<Rightarrow> None | Some m \<Rightarrow> m ''usd'') = None"
    and "basic \<or> \<not> contains (case type_line response of None \<Rightarrow> [] | Some t \<Rightarrow> t) ''Basic Land''"
    and "image_sources response = Inr urls"
  shows "plot_card L n basic entry st = Inl TypeError"
  using assms by (auto simp: plot_card_def fetch_card_data_def Let_def)

lemma a4_layout:
  "compute_layout (2480, 3508) 0 name
    = Inr \<lparr>dimensions = (2480, 3508), gap = 0, cards_per_row = 3, cards_per_col = 3,
           max_cards = 9, deck_name = name\<rparr>"
  by (simp add: compute_layout_def py_floordiv_def MTG_CARD_SIZE_def)

text \<open>
  C2 fails on the code. An entry without a \<open>prices.usd\<close> value adds nothing to the total
  (line 50 guards the addition), but unless the entry is skipped as a basic land, line 63
  multiplies the absent price by the quantity and the render ends in a \<open>TypeError\<close>. On
  the specification's own example (a card priced 1.50 twice, an unpriced card thrice) no
  total is returned, with or without basic lands.
\<close>

theorem absent_price_raises:
  "plot_deck_async example_net priced_and_unpriced True (2480, 3508) ''deck'' 0 = Inl TypeError
   \<and> plot_deck_async example_net priced_and_unpriced False (2480, 3508) ''deck'' 0 = Inl TypeError"
proof -
  let ?L = "\<lparr>dimensions = (2480, 3508), gap = 0, cards_per_row = 3, cards_per_col = 3,
           max_cards = 9, deck_name = ''deck''\<rparr>"
  have first: "\<exists>st. plot_card ?L example_net b \<lparr>cardname = ''Opt'', quantity = 2\<rparr>
                  (initial_state (blank_canvas (2480, 3508))) = Inr (st :: string plot_state)" for b
    by (simp add: plot_card_def fetch_card_data_def example_net_def example_defs Let_def
        startswith_def image_sources_def large_of_def place_def py_floordiv_def py_mod_def
        MTG_CARD_SIZE_def initial_state_def blank_canvas_def numeral_2_eq_2)
  have second: "plot_card ?L example_net b \<lparr>cardname = ''Mental Misstep'', quantity = 3\<rparr> st
      = Inl TypeError" for b and st :: "string plot_state"
    by (rule plot_card_price_absent [where response = "example_card ''banned'' ''Instant'' None"
          and urls = "[''https://img/Instant'']"])
      (simp_all add: example_net_def example_defs startswith_def image_sources_def large_of_def)
  have "plot_cards ?L example_net b (the (maindeck priced_and_unpriced) @ the (sidedeck priced_and_unpriced))
          (initial_state (blank_canvas (2480, 3508))) = Inl TypeError" for b
    using first [of b] second [of b] by (auto simp: priced_and_unpriced_def)
  then show ?thesis
    by (simp add: plot_deck_async_def a4_layout priced_and_unpriced_def Image_new_def)
qed

subsection \<open>The invariant of the render\<close>

lemma sheet_inv_initial: "sheet_inv L (initial_state (blank_canvas (dimensions L)))"
  by (simp add: sheet_inv_def initial_state_def blank_canvas_def placed_in_order_def)

lemma placed_in_order_snoc:
  "placed_in_order L cv \<Longrightarrow> p = paste_position L (int (length (pastes cv))) \<Longrightarrow>
   placed_in_order L (cv\<lparr>pastes := pastes cv @ [(img, p)]\<rparr>)"
  by (simp add: placed_in_order_def enumerate_append_eq)

lemma place_cases:
  assumes "place L img st = Inr st'"
  shows "cards_per_row L \<noteq> 0
    \<and> (card_count st + 1 = max_cards L \<longrightarrow>
         0 \<le> fst (dimensions L) \<and> 0 \<le> snd (dimensions L)
         \<and> st' = st\<lparr>canvas := blank_canvas (dimensions L), card_count := 0,
                  page_count := page_count st + 1,
                  saved := saved st @ [(page_file L (page_count st),
                     (canvas st)\<lparr>pastes := pastes (canvas st)
                        @ [(img, paste_position L (card_count st))]\<rparr>)]\<rparr>)
    \<and> (card_count st + 1 \<noteq> max_cards L \<longrightarrow>
         st' = st\<lparr>canvas := (canvas st)\<lparr>pastes := pastes (canvas st)
                        @ [(img, paste_position L (card_count st))]\<rparr>,
                  card_count := card_count st + 1\<rparr>)"
  using assms
  by (auto simp: place_def py_floordiv_def py_mod_def Let_def paste_position_def
      save_def Image_new_def split: if_splits)


lemma place_inv:
  assumes inv: "sheet_inv L st" and step: "place L img st = Inr st'"
  shows "sheet_inv L st'"
proof (cases "card_count st + 1 = max_cards L")
  case True
  let ?cv = "(canvas st)\<lparr>pastes := pastes (canvas st) @ [(img, paste_position L (card_count st))]\<rparr>"
  have st': "st' = st\<lparr>canvas := blank_canvas (dimensions L), card_count := 0,
                  page_count := page_count st + 1,
                  saved := saved st @ [(page_file L (page_count st), ?cv)]\<rparr>"
    using place_cases [OF step] True by simp
  have cnt: "card_count st = int (length (pastes (canvas st)))"
    and pc: "page_count st = 1 + int (length (saved st))"
    using inv by (simp_all add: sheet_inv_def)
  have ord: "placed_in_order L ?cv"
    using inv cnt by (intro placed_in_order_snoc) (simp_all add: sheet_inv_def)
  have up: "[1 .. 1 + int (length (saved st))] = [1 .. int (length (saved st))] @ [1 + int (length (saved st))]"
    using upto_rec2 [of 1 "1 + int (length (saved st))"] by simp
  show ?thesis
    using inv ord True cnt pc up
    by (simp add: st' sheet_inv_def blank_canvas_def placed_in_order_def add.commute)
next
  case False
  let ?cv = "(canvas st)\<lparr>pastes := pastes (canvas st) @ [(img, paste_position L (card_count st))]\<rparr>"
  have st': "st' = st\<lparr>canvas := ?cv, card_count := card_count st + 1\<rparr>"
    using place_cases [OF step] False by simp
  have cnt: "card_count st = int (length (pastes (canvas st)))"
    using inv by (simp add: sheet_inv_def)
  have ord: "placed_in_order L ?cv"
    using inv cnt by (intro placed_in_order_snoc) (simp_all add: sheet_inv_def)
  show ?thesis
    using inv ord cnt by (simp add: st' sheet_inv_def)
qed

lemma place_copies_inv:
  "sheet_inv L st \<Longrightarrow> place_copies L img k st = Inr st' \<Longrightarrow> sheet_inv L st'"
proof (induction k arbitrary: st)
  case 0
  then show ?case by simp
next
  case (Suc k)
  then show ?case by (auto split: sum.splits dest: place_inv)
qed

lemma place_images_inv:
  "sheet_inv L st \<Longrightarrow> place_images L imgs q st = Inr st' \<Longrightarrow> sheet_inv L st'"
proof (induction imgs arbitrary: st)
  case Nil
  then show ?case by simp
next
  case (Cons img imgs)
  then show ?case by (auto split: sum.splits dest: place_copies_inv)
qed

lemma sheet_inv_deck_price [simp]:
  "sheet_inv L (st\<lparr>deck_price := dp\<rparr>) = sheet_inv L st"
  by (simp add: sheet_inv_def)

lemma plot_card_inv:
  "sheet_inv L st \<Longrightarrow> plot_card L n basic entry st = Inr st' \<Longrightarrow> sheet_inv L st'"
  by (auto simp: plot_card_def Let_def split: sum.splits option.splits if_splits
      elim: place_images_inv [rotated])

lemma plot_cards_inv:
  "sheet_inv L st \<Longrightarrow> plot_cards L n basic entries st = Inr st' \<Longrightarrow> sheet_inv L st'"
proof (induction entries arbitrary: st)
  case Nil
  then show ?case by simp
next
  case (Cons entry entries)
  then show ?case by (auto split: sum.splits dest: plot_card_inv)
qed

subsection \<open>Pages\<close>

lemmas plot_eval = plot_deck_async_def compute_layout_def plot_card_def fetch_card_data_def
  example_net_def example_defs Let_def startswith_def image_sources_def large_of_def place_def
  py_floordiv_def py_mod_def MTG_CARD_SIZE_def initial_state_def Image_new_def blank_canvas_def
  save_def final_files_def page_file_def str_int_def str_nat_digit digit_char_def eval_nat_numeral

lemma plot_deck_async_Inr:
  assumes "plot_deck_async n d basic dims name g = Inr (msg, price, files)"
  shows "\<exists>L main side st. compute_layout dims g name = Inr L
           \<and> 0 \<le> fst dims \<and> 0 \<le> snd dims
           \<and> maindeck d = Some main \<and> sidedeck d = Some side
           \<and> plot_cards L n basic (main @ side) (initial_state (blank_canvas dims)) = Inr st
           \<and> sheet_inv L st
           \<and> msg = ''Deck saved to Decks/'' @ name \<and> price = deck_price st
           \<and> final_files L st = Inr files"
proof -
  from assms obtain L cv main side st where L: "compute_layout dims g name = Inr L"
    and new: "Image_new dims = Inr cv"
    and d: "maindeck d = Some main" "sidedeck d = Some side"
    and st: "plot_cards L n basic (main @ side) (initial_state cv) = Inr st"
    and out: "final_files L st = Inr files" "msg = ''Deck saved to Decks/'' @ name"
      "price = deck_price st"
    by (auto simp: plot_deck_async_def split: sum.splits option.splits)
  have cv: "cv = blank_canvas dims" and dims: "0 \<le> fst dims" "0 \<le> snd dims"
    using new by (auto simp: Image_new_def split: if_splits)
  have "dimensions L = dims"
    using L by (auto simp: compute_layout_def split: sum.splits)
  then have "sheet_inv L (initial_state (blank_canvas dims))"
    using sheet_inv_initial [of L] by simp
  then have "sheet_inv L st"
    using st cv by (auto intro: plot_cards_inv)
  then show ?thesis
    using L dims d st out cv by auto
qed

lemma compute_layout_name:
  "compute_layout dims g name = Inr L \<Longrightarrow> deck_name L = name"
  by (auto simp: compute_layout_def split: sum.splits)

lemma final_files_cases:
  assumes "final_files L st = Inr files"
  shows "files = (if card_count st > 1
                  then saved st @ [(page_file L (page_count st), canvas st)] else saved st)"
  using assms by (auto simp: final_files_def save_def split: if_splits)

lemma final_files_names:
  assumes "sheet_inv L st" and "final_files L st = Inr files"
  shows "map fst files = map (page_file L) [1 .. int (length files)]"
proof (cases "card_count st > 1")
  case True
  have "[1 .. 1 + int (length (saved st))]
        = [1 .. int (length (saved st))] @ [1 + int (length (saved st))]"
    using upto_rec2 [of 1 "1 + int (length (saved st))"] by simp
  then show ?thesis
    using assms(1) True final_files_cases [OF assms(2)]
    by (simp add: sheet_inv_def add.commute)
next
  case False
  then show ?thesis
    using assms(1) final_files_cases [OF assms(2)] by (simp add: sheet_inv_def)
qed

text \<open>
  C7. When a placement brings the counter to the capacity, the page is saved as
  \<open>name_page.png\<close>, the page number goes up by one, the counter returns to zero and a
  blank canvas replaces the buffer; otherwise nothing is saved and the counter goes up by
  one. In a render that returns, pages are numbered from 1, every page saved within the
  loop is full, and the trailing canvas is saved as one more page iff it holds more than
  one image.
\<close>

theorem page_flush_rule:
  "(place L img st = Inr st' \<longrightarrow>
      (card_count st + 1 = max_cards L \<longrightarrow>
         saved st' = saved st
            @ [(deck_name L @ ''_'' @ str_int (page_count st) @ ''.png'',
                (canvas st)\<lparr>pastes := pastes (canvas st)
                   @ [(img, paste_position L (card_count st))]\<rparr>)]
         \<and> page_count st' = page_count st + 1
         \<and> card_count st' = 0
         \<and> Image_new (dimensions L) = Inr (canvas st'))
    \<and> (card_count st + 1 \<noteq> max_cards L \<longrightarrow>
         saved st' = saved st
         \<and> page_count st' = page_count st
         \<and> card_count st' = card_count st + 1))
   \<and> (plot_deck_async n d basic dims name g = Inr (msg, price, files) \<longrightarrow>
        (\<exists>L main side st.
            compute_layout dims g name = Inr L
          \<and> maindeck d = Some main \<and> sidedeck d = Some side
          \<and> plot_cards L n basic (main @ side) (initial_state (blank_canvas dims)) = Inr st
          \<and> page_count st = 1 + int (length (saved st))
          \<and> list_all (\<lambda>(f, cv). int (length (pastes cv)) = max_cards L) (saved st)
          \<and> files = saved st
              @ (if 1 < length (pastes (canvas st))
                 then [(name @ ''_'' @ str_int (page_count st) @ ''.png'', canvas st)]
                 else [])
          \<and> map fst files
              = map (\<lambda>k. name @ ''_'' @ str_int k @ ''.png'') [1 .. int (length files)]))"
proof -
  have flush: "saved st' = saved st
            @ [(deck_name L @ ''_'' @ str_int (page_count st) @ ''.png'',
                (canvas st)\<lparr>pastes := pastes (canvas st)
                   @ [(img, paste_position L (card_count st))]\<rparr>)]
         \<and> page_count st' = page_count st + 1
         \<and> card_count st' = 0
         \<and> Image_new (dimensions L) = Inr (canvas st')"
    if "place L img st = Inr st'" and "card_count st + 1 = max_cards L"
    using place_cases [OF that(1)] that(2) by (auto simp: page_file_def Image_new_def)
  have keep: "saved st' = saved st \<and> page_count st' = page_count st
         \<and> card_count st' = card_count st + 1"
    if "place L img st = Inr st'" and "card_count st + 1 \<noteq> max_cards L"
    using place_cases [OF that(1)] that(2) by simp
  have whole: "\<exists>L main side st.
            compute_layout dims g name = Inr L
          \<and> maindeck d = Some main \<and> sidedeck d = Some side
          \<and> plot_cards L n basic (main @ side) (initial_state (blank_canvas dims)) = Inr st
          \<and> page_count st = 1 + int (length (saved st))
          \<and> list_all (\<lambda>(f, cv). int (length (pastes cv)) = max_cards L) (saved st)
          \<and> files = saved st
              @ (if 1 < length (pastes (canvas st))
                 then [(name @ ''_'' @ str_int (page_count st) @ ''.png'', canvas st)]
                 else [])
          \<and> map fst files
              = map (\<lambda>k. name @ ''_'' @ str_int k @ ''.png'') [1 .. int (length files)]"
    if run: "plot_deck_async n d basic dims name g = Inr (msg, price, files)"
  proof -
    from run obtain L main side st where L: "compute_layout dims g name = Inr L"
      and d: "maindeck d = Some main" "sidedeck d = Some side"
      and st: "plot_cards L n basic (main @ side) (initial_state (blank_canvas dims)) = Inr st"
      and inv: "sheet_inv L st" and files: "final_files L st = Inr files"
      using plot_deck_async_Inr by blast
    have name: "deck_name L = name"
      using L by (rule compute_layout_name)
    have pc: "page_count st = 1 + int (length (saved st))"
      using inv by (simp add: sheet_inv_def)
    have full: "list_all (\<lambda>(f, cv). int (length (pastes cv)) = max_cards L) (saved st)"
      using inv by (auto simp: sheet_inv_def list_all_iff)
    have cnt: "card_count st = int (length (pastes (canvas st)))"
      using inv by (simp add: sheet_inv_def)
    have f1: "files = saved st
              @ (if 1 < length (pastes (canvas st))
                 then [(name @ ''_'' @ str_int (page_count st) @ ''.png'', canvas st)]
                 else [])"
      using final_files_cases [OF files] cnt name by (simp add: page_file_def)
    have f2: "map fst files
              = map (\<lambda>k. name @ ''_'' @ str_int k @ ''.png'') [1 .. int (length files)]"
      using final_files_names [OF inv files] name by (simp add: page_file_def [abs_def])
    show ?thesis
      using L d st pc full f1 f2 by blast
  qed
  show ?thesis
    using flush keep whole by blast
qed

lemma ten_forests_run:
  "plot_deck_async example_net ten_forests True (2480, 3508) ''deck'' 0
    = Inr (''Deck saved to Decks/deck'', [(''0.10'', 10)], [(''deck_1.png'', forest_page)])"
  by (simp add: plot_eval ten_forests_def forest_page_def)

theorem page_flush_rule_witness:
  "plot_deck_async example_net ten_forests True (2480, 3508) ''deck'' 0
     = Inr (''Deck saved to Decks/deck'', [(''0.10'', 10)], [(''deck_1.png'', forest_page)])
   \<and> (\<exists>L main side st.
          compute_layout (2480, 3508) 0 ''deck'' = Inr L
        \<and> maindeck ten_forests = Some main \<and> sidedeck ten_forests = Some side
        \<and> plot_cards L example_net True (main @ side)
              (initial_state (blank_canvas (2480, 3508))) = Inr st
        \<and> page_count st = 1 + int (length (saved st))
        \<and> list_all (\<lambda>(f, cv). int (length (pastes cv)) = max_cards L) (saved st)
        \<and> [(''deck_1.png'', forest_page)] = saved st
            @ (if 1 < length (pastes (canvas st))
               then [(''deck'' @ ''_'' @ str_int (page_count st) @ ''.png'', canvas st)]
               else []))
   \<and> (\<exists>st'. place \<lparr>dimensions = (900, 1200), gap = 0, cards_per_row = 1, cards_per_col = 1,
                   max_cards = 1, deck_name = ''deck''\<rparr> ''img''
                (initial_state (blank_canvas (900, 1200))) = Inr st'
          \<and> saved st' = [(''deck_1.png'', \<lparr>canvas_size = (900, 1200), pastes = [(''img'', 50, 50)]\<rparr>)]
          \<and> page_count st' = 2 \<and> card_count st' = 0
          \<and> canvas st' = blank_canvas (900, 1200))"
proof -
  let ?L = "\<lparr>dimensions = (900, 1200), gap = 0, cards_per_row = 1, cards_per_col = 1,
             max_cards = 1, deck_name = ''deck''\<rparr>"
  let ?st = "initial_state (blank_canvas (900, 1200)) :: string plot_state"
  obtain st' where step: "place ?L ''img'' ?st = Inr st'"
    by (simp add: place_def py_floordiv_def py_mod_def initial_state_def blank_canvas_def
        save_def Image_new_def)
  have full: "card_count ?st + 1 = max_cards ?L"
    by (simp add: initial_state_def)
  have "saved st' = saved ?st
            @ [(deck_name ?L @ ''_'' @ str_int (page_count ?st) @ ''.png'',
                (canvas ?st)\<lparr>pastes := pastes (canvas ?st)
                   @ [(''img'', paste_position ?L (card_count ?st))]\<rparr>)]
         \<and> page_count st' = page_count ?st + 1
         \<and> card_count st' = 0
         \<and> Image_new (dimensions ?L) = Inr (canvas st')"
    using page_flush_rule [of ?L "''img''" ?st st'] step full by blast
  then have "saved st' = [(''deck_1.png'', \<lparr>canvas_size = (900, 1200), pastes = [(''img'', 50, 50)]\<rparr>)]
          \<and> page_count st' = 2 \<and> card_count st' = 0
          \<and> canvas st' = blank_canvas (900, 1200)"
    by (auto simp: initial_state_def Image_new_def blank_canvas_def paste_position_def
        MTG_CARD_SIZE_def str_int_def str_nat_digit digit_char_def)
  with step have third: "\<exists>st'. place ?L ''img'' ?st = Inr st'
          \<and> saved st' = [(''deck_1.png'', \<lparr>canvas_size = (900, 1200), pastes = [(''img'', 50, 50)]\<rparr>)]
          \<and> page_count st' = 2 \<and> card_count st' = 0
          \<and> canvas st' = blank_canvas (900, 1200)"
    by blast
  have "\<exists>L main side st.
          compute_layout (2480, 3508) 0 ''deck'' = Inr L
        \<and> maindeck ten_forests = Some main \<and> sidedeck ten_forests = Some side
        \<and> plot_cards L example_net True (main @ side)
              (initial_state (blank_canvas (2480, 3508))) = Inr st
        \<and> page_count st = 1 + int (length (saved st))
        \<and> list_all (\<lambda>(f, cv). int (length (pastes cv)) = max_cards L) (saved st)
        \<and> [(''deck_1.png'', forest_page)] = saved st
            @ (if 1 < length (pastes (canvas st))
               then [(''deck'' @ ''_'' @ str_int (page_count st) @ ''.png'', canvas st)]
               else [])"
    using page_flush_rule [of undefined undefined undefined undefined example_net ten_forests True
        "(2480, 3508)" "''deck''" 0 "''Deck saved to Decks/deck''" "[(''0.10'', 10)]"
        "[(''deck_1.png'', forest_page)]"] ten_forests_run
    by blast
  then show ?thesis
    using ten_forests_run third by blast
qed

subsection \<open>The grid\<close>

lemma placed_in_order_gap0:
  "placed_in_order L cv \<Longrightarrow> gap L = 0 \<Longrightarrow>
   list_all (\<lambda>(i, im, x, y).
       x = 50 + (int i div cards_per_row L) * 750
     \<and> y = 50 + (int i mod cards_per_row L) * 1050) (enumerate 0 (pastes cv))"
  by (auto simp: placed_in_order_def list_all_iff paste_position_def MTG_CARD_SIZE_def)

text \<open>
  C8. The card size is 750 by 1050 pixels. At gap 0 a page of width \<open>w\<close> and height \<open>h\<close>
  has \<open>(w - 100) div 750\<close> columns, \<open>(h - 100) div 1050\<close> rows and their product as
  capacity. A placement that succeeds pastes the image at
  \<open>x = 50 + (i div columns) * 750\<close>, \<open>y = 50 + (i mod columns) * 1050\<close> for the current
  counter \<open>i\<close>, and on every page a render writes, the \<open>i\<close>-th paste sits at that corner.
\<close>

theorem grid_layout_and_positions:
  "MTG_CARD_SIZE = (750, 1050)
   \<and> compute_layout (w, h) 0 name
       = Inr \<lparr>dimensions = (w, h), gap = 0,
              cards_per_row = (w - 100) div 750, cards_per_col = (h - 100) div 1050,
              max_cards = ((w - 100) div 750) * ((h - 100) div 1050), deck_name = name\<rparr>
   \<and> (gap L = 0 \<and> place L img st = Inr st' \<longrightarrow>
        (\<exists>cv. (cv = canvas st' \<or> saved st' \<noteq> [] \<and> cv = snd (last (saved st')))
            \<and> pastes cv = pastes (canvas st)
                @ [(img, 50 + (card_count st div cards_per_row L) * 750,
                         50 + (card_count st mod cards_per_row L) * 1050)]))
   \<and> (plot_deck_async n d basic (w, h) name 0 = Inr (msg, price, files) \<longrightarrow>
        list_all (\<lambda>(f, cv).
            list_all (\<lambda>(i, im, x, y).
                x = 50 + (int i div ((w - 100) div 750)) * 750
              \<and> y = 50 + (int i mod ((w - 100) div 750)) * 1050)
              (enumerate 0 (pastes cv))) files)"
proof -
  let ?L = "\<lparr>dimensions = (w, h), gap = 0,
              cards_per_row = (w - 100) div 750, cards_per_col = (h - 100) div 1050,
              max_cards = ((w - 100) div 750) * ((h - 100) div 1050), deck_name = name\<rparr>"
  have size: "MTG_CARD_SIZE = (750, 1050)"
    by (simp add: MTG_CARD_SIZE_def)
  have L: "compute_layout (w, h) 0 name = Inr ?L"
    by (simp add: compute_layout_def py_floordiv_def MTG_CARD_SIZE_def)
  have step: "\<exists>cv. (cv = canvas st' \<or> saved st' \<noteq> [] \<and> cv = snd (last (saved st')))
            \<and> pastes cv = pastes (canvas st)
                @ [(img, 50 + (card_count st div cards_per_row L) * 750,
                         50 + (card_count st mod cards_per_row L) * 1050)]"
    if "gap L = 0" and "place L img st = Inr st'"
  proof (cases "card_count st + 1 = max_cards L")
    case True
    with place_cases [OF that(2)] that(1) show ?thesis
      by (intro exI [of _ "snd (last (saved st'))"]) (simp add: paste_position_def MTG_CARD_SIZE_def)
  next
    case False
    with place_cases [OF that(2)] that(1) show ?thesis
      by (intro exI [of _ "canvas st'"]) (simp add: paste_position_def MTG_CARD_SIZE_def)
  qed
  have whole: "list_all (\<lambda>(f, cv).
            list_all (\<lambda>(i, im, x, y).
                x = 50 + (int i div ((w - 100) div 750)) * 750
              \<and> y = 50 + (int i mod ((w - 100) div 750)) * 1050)
              (enumerate 0 (pastes cv))) files"
    if run: "plot_deck_async n d basic (w, h) name 0 = Inr (msg, price, files)"
  proof -
    from plot_deck_async_Inr [OF run] L obtain st where inv: "sheet_inv ?L st"
      and files: "final_files ?L st = Inr files"
      by auto
    have "list_all (\<lambda>(f, cv). placed_in_order ?L cv) files"
      using inv final_files_cases [OF files]
      by (auto simp: sheet_inv_def list_all_iff split: if_splits)
    then have ord: "placed_in_order ?L cv" if "(f, cv) \<in> set files" for f cv
      using that by (auto simp: list_all_iff)
    have "list_all (\<lambda>(i, im, x, y).
                x = 50 + (int i div ((w - 100) div 750)) * 750
              \<and> y = 50 + (int i mod ((w - 100) div 750)) * 1050)
              (enumerate 0 (pastes cv))" if "(f, cv) \<in> set files" for f cv
      using placed_in_order_gap0 [OF ord [OF that]] by simp
    then show ?thesis
      by (subst list_all_iff) blast
  qed
  show ?thesis
    using size L step whole by blast
qed

theorem grid_layout_and_positions_witness:
  "plot_deck_async example_net ten_forests True (2480, 3508) ''deck'' 0
     = Inr (''Deck saved to Decks/deck'', [(''0.10'', 10)], [(''deck_1.png'', forest_page)])
   \<and> list_all (\<lambda>(f, cv).
            list_all (\<lambda>(i, im, x, y).
                x = 50 + (int i div ((2480 - 100) div 750)) * 750
              \<and> y = 50 + (int i mod ((2480 - 100) div 750)) * 1050)
              (enumerate 0 (pastes cv))) [(''deck_1.png'', forest_page)]
   \<and> compute_layout (2480, 3508) 0 ''deck''
       = Inr \<lparr>dimensions = (2480, 3508), gap = 0, cards_per_row = 3, cards_per_col = 3,
              max_cards = 9, deck_name = ''deck''\<rparr>"
proof -
  note inst = grid_layout_and_positions [of 2480 3508 "''deck''" undefined undefined undefined
      undefined example_net ten_forests True "''Deck saved to Decks/deck''" "[(''0.10'', 10)]"
      "[(''deck_1.png'', forest_page)]"]
  from inst ten_forests_run
  have "list_all (\<lambda>(f, cv).
            list_all (\<lambda>(i, im, x, y).
                x = 50 + (int i div ((2480 - 100) div 750)) * 750
              \<and> y = 50 + (int i mod ((2480 - 100) div 750)) * 1050)
              (enumerate 0 (pastes cv))) [(''deck_1.png'', forest_page)]"
    by blast
  moreover from inst [THEN conjunct2, THEN conjunct1]
  have "compute_layout (2480, 3508) 0 ''deck''
       = Inr \<lparr>dimensions = (2480, 3508), gap = 0, cards_per_row = 3, cards_per_col = 3,
              max_cards = 9, deck_name = ''deck''\<rparr>"
    by simp
  ultimately show ?thesis
    using ten_forests_run by blast
qed

subsection \<open>A page too narrow for a card\<close>

















end
